theory Spec2Isabelle
  imports Complex_Main
begin

section \<open>Numbers\<close>

text \<open>
  The engine computes on Python and numpy floats. Finite floats are idealised as real
  numbers (exact arithmetic, no rounding, no overflow, no signed zero); the special
  values a division by zero produces inside pandas are kept apart in \<open>fval\<close>. Share
  counts are Python integers. The theorems below are stated so that they do not depend on
  a result being exact: where the rounding of doubles decides the outcome (the cash left
  by a purchase, the deviation of a long constant series), nothing is asserted.
\<close>

datatype fval = Fin real | PInf | NInf | NaN

text \<open>Python's \<open>int(x)\<close> on a finite float truncates toward zero.\<close>

definition py_int :: "real \<Rightarrow> int" where
  "py_int x = (if 0 \<le> x then \<lfloor>x\<rfloor> else \<lceil>x\<rceil>)"

section \<open>The simulation engine (backtest/backtester.py)\<close>

text \<open>
  One row of the frame returned by \<open>strategy.generate_signals\<close>: only the columns
  \<open>signal\<close> and \<open>close\<close> are read by the engine. Both columns belong to the same frame,
  so they have the same length by construction. A signal that is NaN compares false with
  \<open>> 0\<close> and with \<open>< 0\<close>, as the signal 0 does.
\<close>

record bar =
  signal :: real
  close :: real

text \<open>The three columns \<open>holdings\<close>, \<open>cash\<close>, \<open>total\<close> the engine writes for each row.\<close>

record ledger_entry =
  holdings :: real
  cash :: real
  total_value :: real

text \<open>
  Dividing by a zero close price gives a ZeroDivisionError on a Python float, and on a
  numpy float an infinity or NaN on which \<open>int\<close> raises OverflowError or ValueError:
  in each case the call to \<open>run\<close> is aborted by the exception. On doubles the same
  exceptions also arise when the quotient overflows or the close is NaN; the exact
  division of this theory has neither case, so no theorem below says that a purchase
  succeeds.
\<close>

datatype error = NumericError

text \<open>
  The body of the loop up to the update of the frame (lines 48 to 68), on the local
  variables \<open>(cash, position)\<close>; the first argument is \<open>self.commission\<close>.
\<close>

definition trade :: "real \<Rightarrow> real \<times> int \<Rightarrow> bar \<Rightarrow> error + real \<times> int" where
  "trade commission st b =
     (let csh = fst st; position = snd st; price = close b in
      if signal b > 0 \<and> position = 0 then
        if price = 0 then Inl NumericError
        else
          let shares_to_buy = py_int ((csh * (1 - commission)) / price);
              cost = real_of_int shares_to_buy * price;
              commission_cost = cost * commission
          in Inr (csh - (cost + commission_cost), shares_to_buy)
      else if signal b < 0 \<and> position > 0 then
        let revenue = real_of_int position * price;
            commission_cost = revenue * commission
        in Inr (csh + (revenue - commission_cost), 0)
      else Inr (csh, position))"

text \<open>The row written at lines 71 to 73 from the state after the trade.\<close>

definition row_of :: "real \<times> int \<Rightarrow> bar \<Rightarrow> ledger_entry" where
  "row_of st b =
     \<lparr>holdings = real_of_int (snd st) * close b,
      cash = fst st,
      total_value = fst st + (real_of_int (snd st) * close b)\<rparr>"

text \<open>
  The loop \<open>for i in range(1, len(df))\<close> over the rows after the first. Each row is
  returned together with the share count held after it, which the frame itself does not
  store.
\<close>

fun replay :: "real \<Rightarrow> real \<times> int \<Rightarrow> bar list \<Rightarrow> error + (int \<times> ledger_entry) list" where
  "replay commission st [] = Inr []"
| "replay commission st (b # bs) =
     (case trade commission st b of
        Inl e \<Rightarrow> Inl e
      | Inr st' \<Rightarrow>
          (case replay commission st' bs of
             Inl e \<Rightarrow> Inl e
           | Inr rows \<Rightarrow> Inr ((snd st', row_of st' b) # rows)))"

text \<open>
  \<open>Backtester.run\<close>: the columns are initialised to \<open>0\<close>, \<open>initial_capital\<close>,
  \<open>initial_capital\<close> on every row, and the loop starts at row 1, so row 0 keeps the
  initial values. An empty frame gives an empty result.
\<close>

definition run_trace :: "real \<Rightarrow> real \<Rightarrow> bar list \<Rightarrow> error + (int \<times> ledger_entry) list" where
  "run_trace initial_capital commission df =
     (case df of
        [] \<Rightarrow> Inr []
      | b # bs \<Rightarrow>
          (case replay commission (initial_capital, 0) bs of
             Inl e \<Rightarrow> Inl e
           | Inr rows \<Rightarrow>
               Inr ((0, \<lparr>holdings = 0, cash = initial_capital, total_value = initial_capital\<rparr>)
                    # rows)))"

definition run :: "real \<Rightarrow> real \<Rightarrow> bar list \<Rightarrow> error + ledger_entry list" where
  "run initial_capital commission df =
     (case run_trace initial_capital commission df of
        Inl e \<Rightarrow> Inl e
      | Inr rows \<Rightarrow> Inr (map snd rows))"

text \<open>The frame of spec scenarios A and B.\<close>

definition scenario_bars :: "bar list" where
  "scenario_bars =
     [\<lparr>signal = 0, close = 100\<rparr>, \<lparr>signal = 1, close = 110\<rparr>,
      \<lparr>signal = - 1, close = 90\<rparr>, \<lparr>signal = 0, close = 120\<rparr>]"

section \<open>Series arithmetic (pandas and numpy)\<close>

text \<open>
  Division of two finite floats in numpy: a zero divisor gives NaN for \<open>0 / 0\<close> and
  an infinity otherwise, without raising.
\<close>

definition fdiv :: "real \<Rightarrow> real \<Rightarrow> fval" where
  "fdiv a b = (if b = 0 then (if a = 0 then NaN else if 0 < a then PInf else NInf)
               else Fin (a / b))"

fun fval_div :: "fval \<Rightarrow> fval \<Rightarrow> fval" where
  "fval_div NaN y = NaN"
| "fval_div x NaN = NaN"
| "fval_div (Fin a) (Fin b) = fdiv a b"
| "fval_div (Fin a) y = Fin 0"
| "fval_div PInf (Fin b) = (if 0 \<le> b then PInf else NInf)"
| "fval_div NInf (Fin b) = (if 0 \<le> b then NInf else PInf)"
| "fval_div x y = NaN"

fun fval_add :: "fval \<Rightarrow> fval \<Rightarrow> fval" where
  "fval_add NaN y = NaN"
| "fval_add x NaN = NaN"
| "fval_add (Fin a) (Fin b) = Fin (a + b)"
| "fval_add (Fin a) y = y"
| "fval_add x (Fin b) = x"
| "fval_add PInf PInf = PInf"
| "fval_add NInf NInf = NInf"
| "fval_add x y = NaN"

text \<open>Subtracting a finite constant, and multiplying by one.\<close>

fun fval_sub_const :: "fval \<Rightarrow> real \<Rightarrow> fval" where
  "fval_sub_const (Fin a) c = Fin (a - c)"
| "fval_sub_const x c = x"

fun fval_scale :: "real \<Rightarrow> fval \<Rightarrow> fval" where
  "fval_scale c (Fin a) = Fin (c * a)"
| "fval_scale c NaN = NaN"
| "fval_scale c PInf = (if 0 < c then PInf else if c < 0 then NInf else NaN)"
| "fval_scale c NInf = (if 0 < c then NInf else if c < 0 then PInf else NaN)"

text \<open>The comparisons \<open>r > 0\<close> and \<open>r <= 0\<close>; both are false on NaN.\<close>

fun fval_pos :: "fval \<Rightarrow> bool" where
  "fval_pos (Fin a) = (0 < a)"
| "fval_pos PInf = True"
| "fval_pos x = False"

fun fval_nonpos :: "fval \<Rightarrow> bool" where
  "fval_nonpos (Fin a) = (a \<le> 0)"
| "fval_nonpos NInf = True"
| "fval_nonpos x = False"

text \<open>The reductions of a pandas Series skip NaN (\<open>skipna=True\<close>).\<close>

definition observed :: "fval list \<Rightarrow> fval list" where
  "observed xs = filter (\<lambda>v. v \<noteq> NaN) xs"

definition finite_part :: "fval list \<Rightarrow> real list" where
  "finite_part xs = concat (map (\<lambda>v. case v of Fin r \<Rightarrow> [r] | _ \<Rightarrow> []) xs)"

fun fval_min :: "fval \<Rightarrow> fval \<Rightarrow> fval" where
  "fval_min NaN y = y"
| "fval_min x NaN = x"
| "fval_min (Fin a) (Fin b) = Fin (min a b)"
| "fval_min NInf y = NInf"
| "fval_min x NInf = NInf"
| "fval_min PInf y = y"
| "fval_min x PInf = x"

text \<open>\<open>Series.min()\<close>: NaN when there is no observation.\<close>

definition series_min :: "fval list \<Rightarrow> fval" where
  "series_min xs = foldr fval_min xs NaN"

text \<open>\<open>Series.sum()\<close>: 0 when there is no observation.\<close>

definition series_sum :: "fval list \<Rightarrow> fval" where
  "series_sum xs = foldl fval_add (Fin 0) (observed xs)"

text \<open>\<open>Series.mean()\<close>: the sum over the number of observations, NaN when there is none.\<close>

definition series_mean :: "fval list \<Rightarrow> fval" where
  "series_mean xs = fval_div (series_sum xs) (Fin (real (length (observed xs))))"

text \<open>
  \<open>Series.std()\<close>, the sample standard deviation (\<open>ddof=1\<close>): NaN when there are fewer
  than two observations; an infinite observation makes a deviation \<open>inf - inf\<close>, hence
  the result NaN.
\<close>

definition series_std :: "fval list \<Rightarrow> fval" where
  "series_std xs =
     (let n = length (observed xs); rs = finite_part xs in
      if n \<le> 1 then NaN
      else if length rs < n then NaN
      else
        let avg = sum_list rs / real n
        in Fin (sqrt (sum_list (map (\<lambda>r. (avg - r)\<^sup>2) rs) / real (n - 1))))"

text \<open>\<open>Series.cummax()\<close> on finite values.\<close>

fun cummax_from :: "real \<Rightarrow> real list \<Rightarrow> real list" where
  "cummax_from m [] = []"
| "cummax_from m (x # xs) = max m x # cummax_from (max m x) xs"

definition cummax :: "real list \<Rightarrow> real list" where
  "cummax xs = (case xs of [] \<Rightarrow> [] | x # ys \<Rightarrow> x # cummax_from x ys)"

text \<open>
  \<open>Series.pct_change()\<close> on finite values, as \<open>Backtester.get_returns\<close> applies it to
  the \<open>total\<close> column: \<open>v[i] / v[i-1] - 1\<close>, NaN on the first row.
\<close>

definition pct_change :: "real list \<Rightarrow> fval list" where
  "pct_change vs =
     (case vs of
        [] \<Rightarrow> []
      | x # xs \<Rightarrow> NaN # map (\<lambda>(prev, cur). fval_sub_const (fdiv cur prev) 1) (zip (x # xs) xs))"

section \<open>The metrics (backtest/evaluation.py)\<close>

definition calculate_max_drawdown :: "real list \<Rightarrow> fval" where
  "calculate_max_drawdown portfolio_value =
     (let cmax = cummax portfolio_value;
          drawdown = map (\<lambda>(v, m). fdiv (v - m) m) (zip portfolio_value cmax)
      in series_min drawdown)"

text \<open>The series \<open>returns - (risk_free_rate / 252)\<close>.\<close>

definition excess_returns :: "fval list \<Rightarrow> real \<Rightarrow> fval list" where
  "excess_returns returns risk_free_rate =
     map (\<lambda>r. fval_sub_const r (risk_free_rate / 252)) returns"

text \<open>The test \<open>excess_returns.std() == 0\<close> is false when the deviation is NaN.\<close>

definition calculate_sharpe_ratio :: "fval list \<Rightarrow> real \<Rightarrow> fval" where
  "calculate_sharpe_ratio returns risk_free_rate =
     (let excess = excess_returns returns risk_free_rate in
      if series_std excess = Fin 0 then Fin 0
      else fval_scale (sqrt 252) (fval_div (series_mean excess) (series_std excess)))"

record trade_stats =
  total_trades :: nat
  winning_trades :: nat
  losing_trades :: nat
  win_rate :: real

definition no_trades :: trade_stats where
  "no_trades = \<lparr>total_trades = 0, winning_trades = 0, losing_trades = 0, win_rate = 0\<rparr>"

text \<open>
  The loop of \<open>calculate_win_rate\<close> over the signals from index \<open>i\<close> on, with the
  local variable \<open>position\<close>. It yields, for each element appended to
  \<open>trade_returns\<close>, the pair \<open>(position, i)\<close> whose slice is summed. Signals are
  finite numbers here; a NaN signal would fail both comparisons, as 0 does.
\<close>

fun trade_windows :: "real list \<Rightarrow> nat \<Rightarrow> nat \<Rightarrow> (nat \<times> nat) list" where
  "trade_windows [] i position = []"
| "trade_windows (s # ss) i position =
     (if s > 0 then trade_windows ss (Suc i) i
      else if s < 0 \<and> position > 0 then (position, i) # trade_windows ss (Suc i) 0
      else trade_windows ss (Suc i) position)"

text \<open>\<open>returns.iloc[position:i+1].sum()\<close>; a slice past the end is cut short.\<close>

definition window_return :: "fval list \<Rightarrow> nat \<times> nat \<Rightarrow> fval" where
  "window_return returns w = series_sum (take (Suc (snd w) - fst w) (drop (fst w) returns))"

definition calculate_win_rate :: "real list \<Rightarrow> fval list \<Rightarrow> trade_stats" where
  "calculate_win_rate signals returns =
     (if filter (\<lambda>s. s \<noteq> 0) signals = [] then no_trades
      else
        let trade_returns = map (window_return returns) (trade_windows signals 0 0) in
        if trade_returns = [] then no_trades
        else
          let winning = length (filter fval_pos trade_returns);
              losing = length (filter fval_nonpos trade_returns)
          in \<lparr>total_trades = length trade_returns,
              winning_trades = winning,
              losing_trades = losing,
              win_rate = (real winning / real (length trade_returns)) * 100\<rparr>)"



definition poor_bars :: "bar list" where
  "poor_bars = [\<lparr>signal = 0, close = 100\<rparr>, \<lparr>signal = 1, close = 100\<rparr>]"

section \<open>The drawdown formula in the words of the specification\<close>

text \<open>
  The running maximum \<open>M[i] = max(total_value[0..i])\<close>, the drawdown
  \<open>(total_value[i] - M[i]) / M[i]\<close> and its minimum over all \<open>i\<close>, on real numbers.
\<close>

definition running_max :: "real list \<Rightarrow> nat \<Rightarrow> real" where
  "running_max tv i = Max (set (take (Suc i) tv))"

definition spec_drawdown :: "real list \<Rightarrow> nat \<Rightarrow> real" where
  "spec_drawdown tv i = (tv ! i - running_max tv i) / running_max tv i"

definition spec_max_drawdown :: "real list \<Rightarrow> real" where
  "spec_max_drawdown tv = Min (set (map (spec_drawdown tv) [0..<length tv]))"

section \<open>The ledger as a trace of the loop\<close>

lemma replay_length: "replay c st bs = Inr rows \<Longrightarrow> length rows = length bs"
  by (induction bs arbitrary: st rows) (auto split: sum.splits)

lemma run_trace_length: "run_trace ic c df = Inr rows \<Longrightarrow> length rows = length df"
  by (auto simp: run_trace_def split: list.splits sum.splits dest: replay_length)

lemma run_trace_run: "run_trace ic c df = Inr rows \<Longrightarrow> run ic c df = Inr (map snd rows)"
  by (simp add: run_def)

text \<open>
  Row \<open>i\<close> of the loop is the trade of bar \<open>i\<close> from the state left by the row before,
  and the row written is computed from the state after that trade.
\<close>

lemma replay_step:
  "replay c st bs = Inr rows \<Longrightarrow> i < length bs \<Longrightarrow>
   trade c (if i = 0 then st else (cash (snd (rows ! (i - 1))), fst (rows ! (i - 1)))) (bs ! i)
     = Inr (cash (snd (rows ! i)), fst (rows ! i)) \<and>
   snd (rows ! i) = row_of (cash (snd (rows ! i)), fst (rows ! i)) (bs ! i)"
proof (induction bs arbitrary: st rows i)
  case Nil
  then show ?case by simp
next
  case (Cons b bs)
  from Cons.prems(1) obtain st' rs where t: "trade c st b = Inr st'"
    and r: "replay c st' bs = Inr rs" and rows: "rows = (snd st', row_of st' b) # rs"
    by (auto split: sum.splits)
  show ?case
  proof (cases i)
    case 0
    with t rows show ?thesis by (simp add: row_of_def)
  next
    case (Suc j)
    with Cons.prems(2) have j: "j < length bs" by simp
    from Cons.IH[OF r j] Suc rows show ?thesis
      by (cases j) (simp_all add: row_of_def)
  qed
qed

lemma run_trace_step:
  assumes "run_trace ic c df = Inr rows" and "Suc i < length df"
  shows "trade c (cash (snd (rows ! i)), fst (rows ! i)) (df ! Suc i)
           = Inr (cash (snd (rows ! Suc i)), fst (rows ! Suc i)) \<and>
         snd (rows ! Suc i) = row_of (cash (snd (rows ! Suc i)), fst (rows ! Suc i)) (df ! Suc i)"
proof -
  from assms obtain b bs rs where df: "df = b # bs" and r: "replay c (ic, 0) bs = Inr rs"
    and rows: "rows = (0, \<lparr>holdings = 0, cash = ic, total_value = ic\<rparr>) # rs"
    by (auto simp: run_trace_def split: list.splits sum.splits)
  from assms(2) df have i: "i < length bs" by simp
  from replay_step[OF r i] df rows show ?thesis
    by (cases i) simp_all
qed

lemma run_trace_first:
  "run_trace ic c df = Inr rows \<Longrightarrow> df \<noteq> [] \<Longrightarrow>
   rows ! 0 = (0, \<lparr>holdings = 0, cash = ic, total_value = ic\<rparr>)"
  by (auto simp: run_trace_def split: list.splits sum.splits)

lemma scenario_a_trace:
  "run_trace 1000 0 scenario_bars =
     Inr [(0, \<lparr>holdings = 0, cash = 1000, total_value = 1000\<rparr>),
          (9, \<lparr>holdings = 990, cash = 10, total_value = 1000\<rparr>),
          (0, \<lparr>holdings = 0, cash = 820, total_value = 820\<rparr>),
          (0, \<lparr>holdings = 0, cash = 820, total_value = 820\<rparr>)]"
  by (simp add: run_trace_def scenario_bars_def trade_def row_of_def py_int_def)

lemma scenario_b_trace:
  "run_trace 1000 (1 / 100) scenario_bars =
     Inr [(0, \<lparr>holdings = 0, cash = 1000, total_value = 1000\<rparr>),
          (9, \<lparr>holdings = 990, cash = 1 / 10, total_value = 9901 / 10\<rparr>),
          (0, \<lparr>holdings = 0, cash = 802, total_value = 802\<rparr>),
          (0, \<lparr>holdings = 0, cash = 802, total_value = 802\<rparr>)]"
  by (simp add: run_trace_def scenario_bars_def trade_def row_of_def py_int_def)

section \<open>Ledger invariants\<close>

text \<open>
  Claim C1. Every entry of a ledger produced by \<open>run\<close> has
  \<open>total_value = cash + holdings\<close>, and its holdings are the share count held after
  that bar times the bar's close price, hence zero when the position is flat. The share
  count is the one the loop holds after the bar, listed beside each entry by
  \<open>run_trace\<close>, whose entries are the ledger of \<open>run\<close>.
\<close>

theorem ledger_invariant:
  assumes "run_trace ic c df = Inr rows" and "i < length df"
  shows "run ic c df = Inr (map snd rows) \<and> length rows = length df \<and>
         total_value (snd (rows ! i)) = cash (snd (rows ! i)) + holdings (snd (rows ! i)) \<and>
         holdings (snd (rows ! i)) = real_of_int (fst (rows ! i)) * close (df ! i) \<and>
         (fst (rows ! i) = 0 \<longrightarrow> holdings (snd (rows ! i)) = 0)"
proof -
  have len: "length rows = length df" using assms(1) by (rule run_trace_length)
  have "total_value (snd (rows ! i)) = cash (snd (rows ! i)) + holdings (snd (rows ! i)) \<and>
         holdings (snd (rows ! i)) = real_of_int (fst (rows ! i)) * close (df ! i)"
  proof (cases i)
    case 0
    with assms have "rows ! i = (0, \<lparr>holdings = 0, cash = ic, total_value = ic\<rparr>)"
      using run_trace_first[of ic c df rows] by auto
    then show ?thesis by simp
  next
    case (Suc j)
    with assms run_trace_step[of ic c df rows j]
    have eq: "snd (rows ! i) = row_of (cash (snd (rows ! i)), fst (rows ! i)) (df ! i)"
      by simp
    from arg_cong[OF eq, of holdings] arg_cong[OF eq, of total_value]
    show ?thesis by (simp add: row_of_def)
  qed
  then show ?thesis using assms(1) len by (auto simp: run_trace_run)
qed

theorem ledger_invariant_witness:
  "run_trace 1000 0 scenario_bars =
     Inr [(0, \<lparr>holdings = 0, cash = 1000, total_value = 1000\<rparr>),
          (9, \<lparr>holdings = 990, cash = 10, total_value = 1000\<rparr>),
          (0, \<lparr>holdings = 0, cash = 820, total_value = 820\<rparr>),
          (0, \<lparr>holdings = 0, cash = 820, total_value = 820\<rparr>)] \<and>
   (1 :: nat) < length scenario_bars \<and>
   run 1000 0 scenario_bars =
     Inr [\<lparr>holdings = 0, cash = 1000, total_value = 1000\<rparr>,
          \<lparr>holdings = 990, cash = 10, total_value = 1000\<rparr>,
          \<lparr>holdings = 0, cash = 820, total_value = 820\<rparr>,
          \<lparr>holdings = 0, cash = 820, total_value = 820\<rparr>] \<and>
   (1000 :: real) = 10 + 990 \<and> (990 :: real) = real_of_int 9 * close (scenario_bars ! 1)"
  using ledger_invariant[OF scenario_a_trace, of 1] scenario_a_trace
  by (simp add: scenario_bars_def)

section \<open>Cash between purchases\<close>





section \<open>Scenarios\<close>

text \<open>
  Claim C3, as the code computes it. On prices 100, 110, 90, 120 with signals
  0, +1, -1, 0 and initial capital 1000: without commission the engine buys 9 shares at
  110 for 990 (cash 10) and sells them at 90 for 810, ending at 820. With commission
  0.01 it also buys 9 shares, since 1000 * 0.99 / 110 = 9 exactly: cost 990 plus fee
  9.9 leaves cash 0.1; the sale brings 810 minus fee 8.1, ending at 802.
\<close>

theorem scenario_totals:
  "run_trace 1000 0 scenario_bars =
     Inr [(0, \<lparr>holdings = 0, cash = 1000, total_value = 1000\<rparr>),
          (9, \<lparr>holdings = 990, cash = 10, total_value = 1000\<rparr>),
          (0, \<lparr>holdings = 0, cash = 820, total_value = 820\<rparr>),
          (0, \<lparr>holdings = 0, cash = 820, total_value = 820\<rparr>)] \<and>
   map_sum id (last \<circ> map total_value) (run 1000 0 scenario_bars) = Inr 820 \<and>
   run_trace 1000 (1 / 100) scenario_bars =
     Inr [(0, \<lparr>holdings = 0, cash = 1000, total_value = 1000\<rparr>),
          (9, \<lparr>holdings = 990, cash = 1 / 10, total_value = 9901 / 10\<rparr>),
          (0, \<lparr>holdings = 0, cash = 802, total_value = 802\<rparr>),
          (0, \<lparr>holdings = 0, cash = 802, total_value = 802\<rparr>)] \<and>
   map_sum id (last \<circ> map total_value) (run 1000 (1 / 100) scenario_bars) = Inr 802"
  by (simp add: scenario_a_trace scenario_b_trace run_def)

text \<open>
  The final total of 824 that claim C3 gives for commission 0.01 (8 shares bought) is not
  what the engine returns.
\<close>

theorem scenario_b_not_824:
  "map_sum id (last \<circ> map total_value) (run 1000 (1 / 100) scenario_bars) \<noteq> Inr 824"
  by (simp add: scenario_b_trace run_def)

section \<open>Failures of a run\<close>








section \<open>The first bar\<close>



section \<open>A Buy that affords no share\<close>

lemma py_int_floor_zero: "\<lfloor>x\<rfloor> = 0 \<Longrightarrow> py_int x = 0"
proof -
  assume "\<lfloor>x\<rfloor> = 0"
  then have "0 \<le> x" by (simp add: floor_eq_iff)
  with \<open>\<lfloor>x\<rfloor> = 0\<close> show ?thesis by (simp add: py_int_def)
qed

lemma trade_zero_shares:
  assumes "0 < signal b" and "close b \<noteq> 0" and "\<lfloor>csh * (1 - c) / close b\<rfloor> = 0"
  shows "trade c (csh, 0) b = Inr (csh, 0)"
  using assms(1,2) py_int_floor_zero[OF assms(3)] by (simp add: trade_def Let_def)

text \<open>
  Claim C6. On a bar after the first where a Buy signal arrives while flat and
  \<open>floor(cash * (1 - commission) / close) = 0\<close>, the trade raises no error and leaves
  cash and share count unchanged, and the ledger entry of the bar carries the cash of the
  entry before it, with zero holdings.
\<close>

theorem zero_share_buy_ignored:
  assumes "run_trace ic c df = Inr rows" and "Suc i < length df"
    and "fst (rows ! i) = 0" and "0 < signal (df ! Suc i)"
    and "\<lfloor>cash (snd (rows ! i)) * (1 - c) / close (df ! Suc i)\<rfloor> = 0"
  shows "trade c (cash (snd (rows ! i)), 0) (df ! Suc i) = Inr (cash (snd (rows ! i)), 0) \<and>
         rows ! Suc i =
           (0, \<lparr>holdings = 0, cash = cash (snd (rows ! i)),
                total_value = cash (snd (rows ! i))\<rparr>)"
proof -
  let ?csh = "cash (snd (rows ! i))" and ?b = "df ! Suc i"
  from run_trace_step[OF assms(1,2)] assms(3)
  have step: "trade c (?csh, 0) ?b = Inr (cash (snd (rows ! Suc i)), fst (rows ! Suc i))"
    and row: "snd (rows ! Suc i) = row_of (cash (snd (rows ! Suc i)), fst (rows ! Suc i)) ?b"
    by simp_all
  have nz: "close ?b \<noteq> 0"
  proof
    assume "close ?b = 0"
    with assms(4) have "trade c (?csh, 0) ?b = Inl NumericError" by (simp add: trade_def)
    with step show False by simp
  qed
  from trade_zero_shares[OF assms(4) nz assms(5)]
  have t: "trade c (?csh, 0) ?b = Inr (?csh, 0)" .
  with step have eq: "cash (snd (rows ! Suc i)) = ?csh" "fst (rows ! Suc i) = 0" by simp_all
  with row have "snd (rows ! Suc i) = \<lparr>holdings = 0, cash = ?csh, total_value = ?csh\<rparr>"
    by (simp add: row_of_def)
  with eq(2) t show ?thesis by (simp add: prod_eq_iff)
qed

lemma poor_trace:
  "run_trace 50 0 poor_bars =
     Inr [(0, \<lparr>holdings = 0, cash = 50, total_value = 50\<rparr>),
          (0, \<lparr>holdings = 0, cash = 50, total_value = 50\<rparr>)]"
  by (simp add: run_trace_def poor_bars_def trade_def row_of_def py_int_def)

theorem zero_share_buy_ignored_witness:
  "run_trace 50 0 poor_bars =
     Inr [(0, \<lparr>holdings = 0, cash = 50, total_value = 50\<rparr>),
          (0, \<lparr>holdings = 0, cash = 50, total_value = 50\<rparr>)] \<and>
   Suc 0 < length poor_bars \<and> 0 < signal (poor_bars ! Suc 0) \<and>
   \<lfloor>(50 :: real) * (1 - 0) / close (poor_bars ! Suc 0)\<rfloor> = 0 \<and>
   trade 0 (50, 0) (poor_bars ! Suc 0) = Inr (50, 0)"
proof -
  have h: "Suc 0 < length poor_bars" "0 < signal (poor_bars ! Suc 0)"
    "\<lfloor>(50 :: real) * (1 - 0) / close (poor_bars ! Suc 0)\<rfloor> = 0"
    by (simp_all add: poor_bars_def)
  from zero_share_buy_ignored[OF poor_trace, of 0] h poor_trace show ?thesis by simp
qed

section \<open>Maximum drawdown\<close>

lemma length_cummax_from: "length (cummax_from m xs) = length xs"
  by (induction xs arbitrary: m) simp_all

lemma length_cummax: "length (cummax xs) = length xs"
  by (simp add: cummax_def length_cummax_from split: list.splits)

lemma cummax_from_nth:
  "i < length xs \<Longrightarrow> cummax_from m xs ! i = max m (Max (set (take (Suc i) xs)))"
proof (induction xs arbitrary: m i)
  case Nil
  then show ?case by simp
next
  case (Cons x xs)
  show ?case
  proof (cases i)
    case 0
    then show ?thesis by simp
  next
    case (Suc j)
    with Cons.prems have j: "j < length xs" by simp
    then have ne: "set (take (Suc j) xs) \<noteq> {}" by (cases xs) auto
    from Cons.IH[OF j] Suc ne show ?thesis
      by (simp add: max.assoc)
  qed
qed

lemma cummax_nth: "i < length xs \<Longrightarrow> cummax xs ! i = running_max xs i"
proof (cases xs)
  case Nil
  assume "i < length xs"
  with Nil show ?thesis by simp
next
  case (Cons x ys)
  assume i: "i < length xs"
  show ?thesis
  proof (cases i)
    case 0
    with Cons show ?thesis by (simp add: cummax_def running_max_def)
  next
    case (Suc j)
    with i Cons have j: "j < length ys" by simp
    then have ne: "set (take (Suc j) ys) \<noteq> {}" by (cases ys) auto
    from cummax_from_nth[OF j, of x] Suc Cons ne show ?thesis
      by (simp add: cummax_def running_max_def)
  qed
qed

lemma series_min_Fin: "rs \<noteq> [] \<Longrightarrow> series_min (map Fin rs) = Fin (Min (set rs))"
proof (induction rs)
  case Nil
  then show ?case by simp
next
  case (Cons r rs)
  show ?case
  proof (cases rs)
    case Nil
    then show ?thesis by (simp add: series_min_def)
  next
    case (Cons a as)
    with Cons.IH have "series_min (map Fin rs) = Fin (Min (set rs))" by simp
    with Cons show ?thesis by (simp add: series_min_def)
  qed
qed

lemma drawdown_list:
  assumes "\<forall>i<length tv. running_max tv i \<noteq> 0"
  shows "map (\<lambda>(v, m). fdiv (v - m) m) (zip tv (cummax tv))
         = map Fin (map (spec_drawdown tv) [0..<length tv])"
proof (rule nth_equalityI)
  show "length (map (\<lambda>(v, m). fdiv (v - m) m) (zip tv (cummax tv)))
        = length (map Fin (map (spec_drawdown tv) [0..<length tv]))"
    by (simp add: length_cummax)
next
  fix i assume "i < length (map (\<lambda>(v, m). fdiv (v - m) m) (zip tv (cummax tv)))"
  then have i: "i < length tv" by (simp add: length_cummax)
  with assms have "running_max tv i \<noteq> 0" by simp
  with i show "map (\<lambda>(v, m). fdiv (v - m) m) (zip tv (cummax tv)) ! i
        = map Fin (map (spec_drawdown tv) [0..<length tv]) ! i"
    by (simp add: length_cummax cummax_nth fdiv_def spec_drawdown_def)
qed

lemma max_drawdown_refines:
  assumes "tv \<noteq> []" and "\<forall>i<length tv. running_max tv i \<noteq> 0"
  shows "calculate_max_drawdown tv = Fin (spec_max_drawdown tv)"
proof -
  from assms(1) have "map (spec_drawdown tv) [0..<length tv] \<noteq> []" by simp
  from series_min_Fin[OF this] drawdown_list[OF assms(2)] show ?thesis
    by (simp add: calculate_max_drawdown_def spec_max_drawdown_def)
qed

lemma max_drawdown_single: "v \<noteq> 0 \<Longrightarrow> calculate_max_drawdown [v] = Fin 0"
  by (simp add: calculate_max_drawdown_def cummax_def fdiv_def series_min_def)

lemma max_drawdown_scenario: "calculate_max_drawdown [100, 120, 90, 130] = Fin (- (1 / 4))"
  by (simp add: calculate_max_drawdown_def cummax_def fdiv_def series_min_def)

text \<open>
  Claim C7, as the code behaves. On a non-empty series whose running maxima are all
  non-zero, \<open>calculate_max_drawdown\<close> returns the minimum over \<open>i\<close> of
  \<open>(total_value[i] - M[i]) / M[i]\<close>, \<open>M[i]\<close> the running maximum; on a single-entry
  ledger of non-zero value it returns 0; on 100, 120, 90, 130 it returns -0.25.
\<close>

theorem max_drawdown_is_min_drawdown:
  "(tv \<noteq> [] \<and> (\<forall>i<length tv. running_max tv i \<noteq> 0) \<longrightarrow>
      calculate_max_drawdown tv = Fin (spec_max_drawdown tv)) \<and>
   (v \<noteq> 0 \<longrightarrow> calculate_max_drawdown [v] = Fin 0) \<and>
   calculate_max_drawdown [100, 120, 90, 130] = Fin (- (1 / 4))"
  using max_drawdown_refines[of tv] max_drawdown_single[of v] max_drawdown_scenario by blast

theorem max_drawdown_is_min_drawdown_witness:
  "[100, 120, 90, 130 :: real] \<noteq> [] \<and>
   list_all (\<lambda>i. running_max [100, 120, 90, 130] i \<noteq> 0) [0, 1, 2, 3] \<and>
   calculate_max_drawdown [100, 120, 90, 130] = Fin (spec_max_drawdown [100, 120, 90, 130]) \<and>
   spec_max_drawdown [100, 120, 90, 130] = - (1 / 4) \<and>
   (1000 :: real) \<noteq> 0 \<and> calculate_max_drawdown [1000] = Fin 0"
proof -
  have h: "\<forall>i<length [100, 120, 90, 130 :: real]. running_max [100, 120, 90, 130] i \<noteq> 0"
    by (simp add: running_max_def less_Suc_eq numeral_eq_Suc)
  have l: "list_all (\<lambda>i. running_max [100, 120, 90, 130] i \<noteq> 0) [0, 1, 2, 3]"
    by (simp add: running_max_def numeral_eq_Suc)
  have s: "spec_max_drawdown [100, 120, 90, 130] = - (1 / 4)"
    by (simp add: spec_max_drawdown_def spec_drawdown_def running_max_def upt_rec numeral_eq_Suc)
  from max_drawdown_is_min_drawdown[of "[100, 120, 90, 130]" 1000] h l s show ?thesis by simp
qed

text \<open>
  Against claim C7 as stated: the single-entry ledger of value 0 (a run with no capital)
  has the drawdown \<open>0 / 0\<close>, and the result is NaN, not 0.
\<close>

theorem max_drawdown_zero_ledger: "calculate_max_drawdown [0] = NaN"
  by (simp add: calculate_max_drawdown_def cummax_def fdiv_def series_min_def)

section \<open>Sharpe ratio\<close>

lemma fval_div_NaN_right: "fval_div x NaN = NaN"
  by (cases x) simp_all

lemma sharpe_two_point: "calculate_sharpe_ratio (pct_change [a, b]) rf = NaN"
proof -
  have "series_std (excess_returns (pct_change [a, b]) rf) = NaN"
    by (simp add: pct_change_def excess_returns_def series_std_def observed_def)
  then show ?thesis by (simp add: calculate_sharpe_ratio_def fval_div_NaN_right)
qed

lemma excess_scenario_c:
  "excess_returns (pct_change [1000, 1000, 1000, 1000]) (1 / 50)
   = [NaN, Fin (- (1 / 12600)), Fin (- (1 / 12600)), Fin (- (1 / 12600))]"
  by (simp add: excess_returns_def pct_change_def fdiv_def)

lemma std_scenario_c:
  "series_std [NaN, Fin (- (1 / 12600)), Fin (- (1 / 12600)), Fin (- (1 / 12600))] = Fin 0"
  by (simp add: series_std_def observed_def finite_part_def)

lemma sharpe_scenario_c:
  "calculate_sharpe_ratio (pct_change [1000, 1000, 1000, 1000]) (1 / 50) = Fin 0"
  by (simp add: calculate_sharpe_ratio_def excess_scenario_c std_scenario_c)

text \<open>
  Claim C8, as the code behaves. \<open>calculate_sharpe_ratio\<close> returns exactly 0 whenever
  the sample standard deviation of the excess returns is exactly 0, as it is for the
  total values 1000, 1000, 1000, 1000. A two-point series has a single return, whose
  sample standard deviation is NaN: the test for 0 fails and the result is NaN.
\<close>

theorem sharpe_zero_deviation_fallback:
  "(series_std (excess_returns returns rf) = Fin 0 \<longrightarrow>
      calculate_sharpe_ratio returns rf = Fin 0) \<and>
   calculate_sharpe_ratio (pct_change [1000, 1000, 1000, 1000]) (1 / 50) = Fin 0 \<and>
   calculate_sharpe_ratio (pct_change [a, b]) rf = NaN"
  using sharpe_scenario_c sharpe_two_point[of a b rf]
  by (simp add: calculate_sharpe_ratio_def)

theorem sharpe_zero_deviation_fallback_witness:
  "series_std (excess_returns (pct_change [1000, 1000, 1000, 1000]) (1 / 50)) = Fin 0 \<and>
   calculate_sharpe_ratio (pct_change [1000, 1000, 1000, 1000]) (1 / 50) = Fin 0 \<and>
   calculate_sharpe_ratio (pct_change [1000, 1100]) (1 / 50) = NaN"
proof -
  have h: "series_std (excess_returns (pct_change [1000, 1000, 1000, 1000]) (1 / 50)) = Fin 0"
    by (simp add: excess_scenario_c std_scenario_c)
  from sharpe_zero_deviation_fallback[of "pct_change [1000, 1000, 1000, 1000]" "1 / 50" 1000 1100] h
  show ?thesis by simp
qed

text \<open>
  Against claim C8 as stated: on the two-point series 1000, 1000 (constant) and
  1000, 1100 the result is NaN, not 0.
\<close>

theorem sharpe_two_point_is_nan:
  "calculate_sharpe_ratio (pct_change [1000, 1000]) (1 / 50) = NaN \<and>
   calculate_sharpe_ratio (pct_change [1000, 1100]) (1 / 50) = NaN"
  by (simp add: calculate_sharpe_ratio_def pct_change_def excess_returns_def series_std_def
      observed_def fval_div_NaN_right)

section \<open>Win rate\<close>

lemma trade_windows_entry_pos: "\<forall>w\<in>set (trade_windows ss i p). 0 < fst w"
  by (induction ss arbitrary: i p) simp_all

lemma trade_windows_no_buy:
  "\<forall>x\<in>set ss. x \<le> 0 \<Longrightarrow> trade_windows ss i 0 = []"
  by (induction ss arbitrary: i) (simp_all add: not_less)

lemma win_rate_only_first_buy:
  assumes "0 < s" and "\<forall>x\<in>set rest. x \<le> 0"
  shows "calculate_win_rate (s # rest) returns = no_trades"
proof -
  from assms(1) have "trade_windows (s # rest) 0 0 = trade_windows rest (Suc 0) 0" by simp
  also have "\<dots> = []" using assms(2) by (rule trade_windows_no_buy)
  finally show ?thesis by (simp add: calculate_win_rate_def)
qed

text \<open>
  Claim C10. A Buy at index 0 stores the entry index 0, which is also the value of
  \<open>position\<close> that means no open trade, and the exit branch requires
  \<open>position > 0\<close>. So no counted trade ever has entry index 0, and a series whose only
  Buy is at index 0 reports no trade at all (\<open>total_trades = 0\<close>), whatever Sell
  signals follow.
\<close>

theorem buy_at_index_zero_not_counted:
  "(\<forall>w\<in>set (trade_windows signals 0 0). 0 < fst w) \<and>
   (0 < s \<and> (\<forall>x\<in>set rest. x \<le> 0) \<longrightarrow>
      calculate_win_rate (s # rest) returns = no_trades \<and>
      total_trades (calculate_win_rate (s # rest) returns) = 0)"
  using trade_windows_entry_pos[of signals 0 0] win_rate_only_first_buy[of s rest returns]
  by (simp add: no_trades_def)

theorem buy_at_index_zero_not_counted_witness:
  "(0 :: real) < 1 \<and> list_all (\<lambda>x. x \<le> 0) [- 1 :: real] \<and>
   total_trades (calculate_win_rate [1, - 1] [NaN, Fin (1 / 10)]) = 0 \<and>
   trade_windows [0, 1, - 1] 0 0 = [(1, 2)] \<and>
   list_all (\<lambda>w. 0 < fst w) (trade_windows [0, 1, - 1] 0 0)"
proof -
  have a: "trade_windows [0, 1, - 1] 0 0 = [(1, 2)]" by (simp add: numeral_2_eq_2)
  from buy_at_index_zero_not_counted[of "[0, 1, - 1]" 1 "[- 1]" "[NaN, Fin (1 / 10)]"] a
  show ?thesis by (simp add: no_trades_def)
qed

text \<open>
  Claim C9 at a series the code mishandles. The signals Buy, Hold, Sell with positive
  returns form one completed winning trade, yet the statistics are all zero; the same
  series moved one bar later is counted as one winning trade.
\<close>

theorem win_rate_misses_trade_from_first_bar:
  "calculate_win_rate [1, 0, - 1] [NaN, Fin (1 / 20), Fin (1 / 20)] = no_trades \<and>
   calculate_win_rate [0, 1, 0, - 1] [NaN, NaN, Fin (1 / 20), Fin (1 / 20)] =
     \<lparr>total_trades = 1, winning_trades = 1, losing_trades = 0, win_rate = 100\<rparr>"
  by (simp add: calculate_win_rate_def window_return_def series_sum_def observed_def
      numeral_eq_Suc)

text \<open>Spec scenario E: one losing and one winning completed trade.\<close>

lemma win_rate_scenario_e:
  "calculate_win_rate [0, 1, - 1, 1, 0, - 1]
     [NaN, Fin (- (1 / 10)), Fin (- (1 / 20)), Fin 0, Fin (1 / 10), Fin (1 / 20)] =
     \<lparr>total_trades = 2, winning_trades = 1, losing_trades = 1, win_rate = 50\<rparr>"
  by (simp add: calculate_win_rate_def window_return_def series_sum_def observed_def
      numeral_eq_Suc)

end
